theory Spec2Isabelle
  imports Complex_Main
begin

section \<open>Python primitives used by the scoring code\<close>

text \<open>
  Python floats are modelled as exact rationals: every quotient, product and comparison
  below is the mathematical one. Rounding error of IEEE doubles is outside the model.
  A division is the only arithmetic operation of the code that can raise, so it returns
  a sum whose left injection is the exception.
\<close>

datatype py_error = ZeroDivisionError

definition truediv :: "rat \<Rightarrow> rat \<Rightarrow> py_error + rat" where
  "truediv a b = (if b = 0 then Inl ZeroDivisionError else Inr (a / b))"

text \<open>\<^verbatim>\<open>s or ""\<close>: \<^verbatim>\<open>None\<close> and the empty string are both falsy.\<close>

definition or_empty :: "string option \<Rightarrow> string" where
  "or_empty s = (case s of None \<Rightarrow> [] | Some t \<Rightarrow> t)"

text \<open>
  \<^verbatim>\<open>str.lower\<close> on the ASCII range (a HOL character is one byte): the 26 capital
  letters map to their small letters, every other character is unchanged.
\<close>

definition lower_char :: "char \<Rightarrow> char" where
  "lower_char c =
     (case map_of (zip ''ABCDEFGHIJKLMNOPQRSTUVWXYZ'' ''abcdefghijklmnopqrstuvwxyz'') c of
        None \<Rightarrow> c
      | Some d \<Rightarrow> d)"

definition lower :: "string \<Rightarrow> string" where
  "lower s = map lower_char s"

section \<open>metrics.py\<close>

subsection \<open>\<^verbatim>\<open>_count_syllables\<close>\<close>

definition is_vowel :: "char \<Rightarrow> bool" where
  "is_vowel ch = (ch \<in> set ''aeiouy'')"

text \<open>The \<^verbatim>\<open>for ch in word\<close> loop, with its two variables as arguments.\<close>

fun syllable_loop :: "string \<Rightarrow> int \<Rightarrow> bool \<Rightarrow> int" where
  "syllable_loop [] count prev_is_vowel = count"
| "syllable_loop (ch # rest) count prev_is_vowel =
     (let is_v = is_vowel ch
      in syllable_loop rest (if is_v \<and> \<not> prev_is_vowel then count + 1 else count) is_v)"

definition endswith_e :: "string \<Rightarrow> bool" where
  "endswith_e word = (word \<noteq> [] \<and> last word = CHR ''e'')"

definition count_syllables :: "string \<Rightarrow> int" where
  "count_syllables w =
     (let word = lower w;
          count = syllable_loop word 0 False;
          count' = (if endswith_e word \<and> count > 1 then count - 1 else count)
      in max count' 1)"

text \<open>
  The reading of the loop that the documentation gives: the number of positions at which
  a vowel group starts, that is, a vowel that is the first character or follows a
  non-vowel.
\<close>

definition vowel_group_starts :: "string \<Rightarrow> nat" where
  "vowel_group_starts word =
     length (filter (\<lambda>i. is_vowel (word ! i) \<and> (i = 0 \<or> \<not> is_vowel (word ! (i - 1))))
       [0 ..< length word])"

subsection \<open>\<^verbatim>\<open>_flesch_kincaid_grade\<close>\<close>

definition flesch_kincaid_grade_fn :: "int \<Rightarrow> int \<Rightarrow> int \<Rightarrow> py_error + rat" where
  "flesch_kincaid_grade_fn num_sentences num_words num_syllables =
     (if num_sentences \<le> 0 \<or> num_words \<le> 0 then Inr 0
      else case truediv (of_int num_words) (of_int num_sentences) of
             Inl e \<Rightarrow> Inl e
           | Inr wps \<Rightarrow>
               (case truediv (of_int num_syllables) (of_int num_words) of
                  Inl e \<Rightarrow> Inl e
                | Inr spw \<Rightarrow> Inr (39 / 100 * wps + 118 / 10 * spw - 1559 / 100)))"

subsection \<open>\<^verbatim>\<open>_repetition_penalty\<close>\<close>

definition ratio_for_n :: "string list \<Rightarrow> nat \<Rightarrow> py_error + rat" where
  "ratio_for_n tokens n =
     (if length tokens < n then Inr 0
      else let ngrams = map (\<lambda>i. take n (drop i tokens)) [0 ..< length tokens - n + 1];
               total = length ngrams
           in if total = 0 then Inr 0
              else let unique = card (set ngrams);
                       repeats = int total - int unique
                   in case truediv (of_int repeats) (of_nat total) of
                        Inl e \<Rightarrow> Inl e
                      | Inr q \<Rightarrow> Inr (q * 100))"

definition repetition_penalty_fn :: "string list \<Rightarrow> py_error + rat" where
  "repetition_penalty_fn tokens =
     (case ratio_for_n tokens 3 of
        Inl e \<Rightarrow> Inl e
      | Inr r3 \<Rightarrow> if r3 > 0 \<or> length tokens \<ge> 50 then Inr r3 else ratio_for_n tokens 2)"

subsection \<open>\<^verbatim>\<open>calculate_metrics\<close>\<close>

record metrics =
  lexical_diversity :: rat
  query_coverage :: rat
  flesch_kincaid_grade :: rat
  repetition_penalty :: rat

text \<open>
  The NLTK word tokenizer, sentence tokenizer and English stop-word list are library
  resources; they are arguments of the model.
\<close>

definition calculate_metrics ::
  "(string \<Rightarrow> string list) \<Rightarrow> (string \<Rightarrow> string list) \<Rightarrow> string list \<Rightarrow>
   string option \<Rightarrow> string option \<Rightarrow> py_error + metrics" where
  "calculate_metrics word_tokenize sent_tokenize stopwords_english prompt response =
     (let text = or_empty response;
          tokens = word_tokenize (lower text)
      in if tokens = [] then
           Inr \<lparr>lexical_diversity = 0, query_coverage = 0,
                flesch_kincaid_grade = 0, repetition_penalty = 0\<rparr>
         else
           case truediv (of_nat (card (set tokens))) (of_nat (length tokens)) of
             Inl e \<Rightarrow> Inl e
           | Inr ttr \<Rightarrow>
           let lexical_diversity_v = ttr * 100;
               prompt_words = set (word_tokenize (lower (or_empty prompt)));
               stop_words = set stopwords_english;
               prompt_keywords = prompt_words - stop_words;
               response_words = set tokens;
               covered = prompt_keywords \<inter> response_words
           in case (if prompt_keywords \<noteq> {}
                    then (case truediv (of_nat (card covered)) (of_nat (card prompt_keywords)) of
                            Inl e \<Rightarrow> Inl e
                          | Inr c \<Rightarrow> Inr (c * 100))
                    else Inr 100) of
             Inl e \<Rightarrow> Inl e
           | Inr query_coverage_v \<Rightarrow>
           let sentences = sent_tokenize text;
               num_sentences = max (int (length sentences)) 1;
               num_words = int (length tokens);
               num_syllables = sum_list (map count_syllables tokens)
           in case flesch_kincaid_grade_fn num_sentences num_words num_syllables of
             Inl e \<Rightarrow> Inl e
           | Inr fk_grade \<Rightarrow>
           (case repetition_penalty_fn tokens of
             Inl e \<Rightarrow> Inl e
           | Inr repetition \<Rightarrow>
               Inr \<lparr>lexical_diversity = lexical_diversity_v, query_coverage = query_coverage_v,
                    flesch_kincaid_grade = fk_grade, repetition_penalty = repetition\<rparr>))"

text \<open>
  A whitespace tokenizer and a full-stop sentence splitter: small executable instances of
  the two tokenizer arguments, on which the model is evaluated at concrete strings. Both
  return the empty list on the empty string, as the NLTK tokenizers do.
\<close>

fun split_on :: "char \<Rightarrow> string \<Rightarrow> string \<Rightarrow> string list" where
  "split_on sep acc [] = (if acc = [] then [] else [rev acc])"
| "split_on sep acc (c # cs) =
     (if c = sep then (if acc = [] then split_on sep [] cs else rev acc # split_on sep [] cs)
      else split_on sep (c # acc) cs)"

definition space_tokenize :: "string \<Rightarrow> string list" where
  "space_tokenize s = split_on CHR '' '' [] s"

definition stop_tokenize :: "string \<Rightarrow> string list" where
  "stop_tokenize s = split_on CHR ''.'' [] s"

text \<open>
  The documented ratio of repeated n-grams: with \<open>total\<close> the number of windows of
  \<open>n\<close> consecutive tokens and \<open>unique\<close> the number of distinct windows,
  \<open>100 * (total - unique) / total\<close>, and \<open>0\<close> when there are fewer than \<open>n\<close>
  tokens.
\<close>

definition ngram_repeat_ratio :: "nat \<Rightarrow> string list \<Rightarrow> rat" where
  "ngram_repeat_ratio n tokens =
     (if length tokens < n then 0
      else let total = length tokens - n + 1;
               unique = card ((\<lambda>i. take n (drop i tokens)) ` {..< total})
           in 100 * (of_nat total - of_nat unique) / of_nat total)"

section \<open>analytics.py\<close>

subsection \<open>The stored rows and the three aggregate queries\<close>

text \<open>
  A row of the \<^verbatim>\<open>evaluations\<close> table (models/evaluation.py); every column is declared
  \<^verbatim>\<open>nullable=False\<close>. The table is the list of its rows.
\<close>

record evaluation =
  ev_id :: nat
  ev_prompt :: string
  ev_model :: string
  ev_temperature :: rat
  ev_top_p :: rat
  ev_lexical_diversity :: rat
  ev_query_coverage :: rat
  ev_flesch_kincaid_grade :: rat
  ev_repetition_penalty :: rat

text \<open>
  The dictionaries built from the query results. A key that a dictionary may lack
  (\<^verbatim>\<open>norm_*\<close>, added by the normalisation loop) is an optional field; the scatter rows
  extend the comparison rows by the two generation parameters and the run count.
\<close>

record row =
  model :: string
  avg_lexical_diversity :: rat
  avg_query_coverage :: rat
  avg_fk_grade :: rat
  avg_repetition_penalty :: rat
  norm_lexical_diversity :: "rat option"
  norm_query_coverage :: "rat option"
  norm_fk_grade :: "rat option"
  norm_repetition_penalty :: "rat option"

record scatter_row = row +
  temperature :: rat
  top_p :: rat
  run_count :: nat

text \<open>
  SQL \<^verbatim>\<open>AVG\<close>: \<^verbatim>\<open>NULL\<close> over no rows, the mean otherwise. Inside a \<^verbatim>\<open>GROUP BY\<close>
  every group has at least one row and the columns are not nullable, so a group average
  is always a number.
\<close>

definition sql_avg :: "rat list \<Rightarrow> rat option" where
  "sql_avg vs = (if vs = [] then None else Some (sum_list vs / of_nat (length vs)))"

definition group_avg :: "rat list \<Rightarrow> rat" where
  "group_avg vs = sum_list vs / of_nat (length vs)"

definition scatter_key :: "evaluation \<Rightarrow> string \<times> rat \<times> rat" where
  "scatter_key e = (ev_model e, ev_temperature e, ev_top_p e)"

definition query_scatter :: "evaluation list \<Rightarrow> scatter_row list" where
  "query_scatter db =
     map (\<lambda>k. let g = filter (\<lambda>e. scatter_key e = k) db
              in \<lparr>model = fst k,
                  avg_lexical_diversity = group_avg (map ev_lexical_diversity g),
                  avg_query_coverage = group_avg (map ev_query_coverage g),
                  avg_fk_grade = group_avg (map ev_flesch_kincaid_grade g),
                  avg_repetition_penalty = group_avg (map ev_repetition_penalty g),
                  norm_lexical_diversity = None, norm_query_coverage = None,
                  norm_fk_grade = None, norm_repetition_penalty = None,
                  temperature = fst (snd k), top_p = snd (snd k), run_count = length g\<rparr>)
       (remdups (map scatter_key db))"

definition query_compare :: "evaluation list \<Rightarrow> row list" where
  "query_compare db =
     map (\<lambda>k. let g = filter (\<lambda>e. ev_model e = k) db
              in \<lparr>model = k,
                  avg_lexical_diversity = group_avg (map ev_lexical_diversity g),
                  avg_query_coverage = group_avg (map ev_query_coverage g),
                  avg_fk_grade = group_avg (map ev_flesch_kincaid_grade g),
                  avg_repetition_penalty = group_avg (map ev_repetition_penalty g),
                  norm_lexical_diversity = None, norm_query_coverage = None,
                  norm_fk_grade = None, norm_repetition_penalty = None\<rparr>)
       (remdups (map ev_model db))"

definition query_overall ::
  "evaluation list \<Rightarrow> rat option \<times> rat option \<times> rat option \<times> rat option" where
  "query_overall db =
     (sql_avg (map ev_lexical_diversity db), sql_avg (map ev_query_coverage db),
      sql_avg (map ev_flesch_kincaid_grade db), sql_avg (map ev_repetition_penalty db))"

subsection \<open>\<^verbatim>\<open>round(x, 2)\<close>\<close>

text \<open>
  Python rounds the exact value of its argument to the nearest multiple of \<open>1/100\<close> and
  breaks an exact tie towards the even neighbour.
\<close>

definition round_half_even :: "rat \<Rightarrow> int" where
  "round_half_even y =
     (let f = \<lfloor>y\<rfloor>; d = y - of_int f
      in if d < 1 / 2 then f else if d > 1 / 2 then f + 1 else if even f then f else f + 1)"

definition py_round2 :: "rat \<Rightarrow> rat" where
  "py_round2 x = of_int (round_half_even (x * 100)) / 100"

subsection \<open>\<^verbatim>\<open>get_analytics\<close>\<close>

definition min_max :: "rat option list \<Rightarrow> rat \<times> rat" where
  "min_max vals =
     (let vals' = List.map_filter (\<lambda>v. v) vals
      in if vals' = [] then (0, 0) else (Min (set vals'), Max (set vals')))"

definition norm_high_is_better :: "rat \<Rightarrow> rat \<Rightarrow> rat \<Rightarrow> py_error + rat" where
  "norm_high_is_better x vmin vmax =
     (let rng = (if vmax - vmin \<noteq> 0 then vmax - vmin else 1 / 10 ^ 9)
      in truediv (100 * (x - vmin)) rng)"

definition norm_low_is_better :: "rat \<Rightarrow> rat \<Rightarrow> rat \<Rightarrow> py_error + rat" where
  "norm_low_is_better x vmin vmax =
     (let rng = (if vmax - vmin \<noteq> 0 then vmax - vmin else 1 / 10 ^ 9)
      in truediv (100 * (vmax - x)) rng)"

text \<open>The body of \<^verbatim>\<open>for row in ...\<close>: the four assignments to the row.\<close>

definition normalize_row ::
  "rat \<times> rat \<Rightarrow> rat \<times> rat \<Rightarrow> 'a row_scheme \<Rightarrow> py_error + 'a row_scheme" where
  "normalize_row fk rp r =
     (case norm_high_is_better (avg_fk_grade r) (fst fk) (snd fk) of
        Inl e \<Rightarrow> Inl e
      | Inr nfk \<Rightarrow>
          (case norm_low_is_better (avg_repetition_penalty r) (fst rp) (snd rp) of
             Inl e \<Rightarrow> Inl e
           | Inr nrp \<Rightarrow>
               Inr (r\<lparr>norm_lexical_diversity := Some (py_round2 (avg_lexical_diversity r)),
                      norm_query_coverage := Some (py_round2 (avg_query_coverage r)),
                      norm_fk_grade := Some (py_round2 nfk),
                      norm_repetition_penalty := Some (py_round2 nrp)\<rparr>)))"

text \<open>A \<^verbatim>\<open>for\<close> loop over a list whose body may raise: the first exception ends it.\<close>

fun for_each :: "('a \<Rightarrow> py_error + 'b) \<Rightarrow> 'a list \<Rightarrow> py_error + 'b list" where
  "for_each f [] = Inr []"
| "for_each f (x # xs) =
     (case f x of
        Inl e \<Rightarrow> Inl e
      | Inr y \<Rightarrow> (case for_each f xs of Inl e \<Rightarrow> Inl e | Inr ys \<Rightarrow> Inr (y # ys)))"

text \<open>
  The block \<^verbatim>\<open>if scatter: ...\<close> and the block \<^verbatim>\<open>if compare: ...\<close> are the same text
  up to the name of the list; \<open>normalize\<close> is that block.
\<close>

definition normalize :: "'a row_scheme list \<Rightarrow> py_error + 'a row_scheme list" where
  "normalize rows =
     (if rows \<noteq> [] then
        let ld_vals = map (\<lambda>r. Some (avg_lexical_diversity r)) rows;
            qc_vals = map (\<lambda>r. Some (avg_query_coverage r)) rows;
            fk_vals = map (\<lambda>r. Some (avg_fk_grade r)) rows;
            rp_vals = map (\<lambda>r. Some (avg_repetition_penalty r)) rows;
            ld = min_max ld_vals;
            qc = min_max qc_vals;
            fk = min_max fk_vals;
            rp = min_max rp_vals
        in for_each (normalize_row fk rp) rows
      else Inr rows)"

record kpi =
  overall_avg_lexical_diversity :: rat
  overall_avg_query_coverage :: rat
  overall_avg_fk_grade :: rat
  overall_avg_repetition_penalty :: rat

record analytics =
  scatter_data :: "scatter_row list"
  model_comparison :: "row list"
  kpi :: kpi

text \<open>\<^verbatim>\<open>round(v, 2) if v else 0\<close>: \<^verbatim>\<open>None\<close> and \<open>0.0\<close> are falsy.\<close>

definition kpi_field :: "rat option \<Rightarrow> rat" where
  "kpi_field v = (case v of None \<Rightarrow> 0 | Some x \<Rightarrow> if x = 0 then 0 else py_round2 x)"

definition get_analytics :: "evaluation list \<Rightarrow> py_error + analytics" where
  "get_analytics db =
     (let scatter = query_scatter db;
          compare = query_compare db
      in case query_overall db of (o0, o1, o2, o3) \<Rightarrow>
         (case normalize scatter of
            Inl e \<Rightarrow> Inl e
          | Inr scatter' \<Rightarrow>
              (case normalize compare of
                 Inl e \<Rightarrow> Inl e
               | Inr compare' \<Rightarrow>
                   Inr \<lparr>scatter_data = scatter', model_comparison = compare',
                        kpi = \<lparr>overall_avg_lexical_diversity = kpi_field o0,
                                overall_avg_query_coverage = kpi_field o1,
                                overall_avg_fk_grade = kpi_field o2,
                                overall_avg_repetition_penalty = kpi_field o3\<rparr>\<rparr>)))"

subsection \<open>The documented rescaling\<close>

text \<open>
  The two min-max formulas as the documentation states them, over the set of group
  averages of one view, and the row that the loop body leaves behind when neither
  division raises.
\<close>

definition rescale_high_is_better :: "rat set \<Rightarrow> rat \<Rightarrow> rat" where
  "rescale_high_is_better vals x = 100 * (x - Min vals) / (Max vals - Min vals)"

definition rescale_low_is_better :: "rat set \<Rightarrow> rat \<Rightarrow> rat" where
  "rescale_low_is_better vals x = 100 * (Max vals - x) / (Max vals - Min vals)"

definition guarded_range :: "rat \<Rightarrow> rat \<Rightarrow> rat" where
  "guarded_range vmin vmax = (if vmax - vmin \<noteq> 0 then vmax - vmin else 1 / 10 ^ 9)"

definition normalized_row :: "rat \<times> rat \<Rightarrow> rat \<times> rat \<Rightarrow> 'a row_scheme \<Rightarrow> 'a row_scheme" where
  "normalized_row fk rp r =
     r\<lparr>norm_lexical_diversity := Some (py_round2 (avg_lexical_diversity r)),
       norm_query_coverage := Some (py_round2 (avg_query_coverage r)),
       norm_fk_grade :=
         Some (py_round2 (100 * (avg_fk_grade r - fst fk) / guarded_range (fst fk) (snd fk))),
       norm_repetition_penalty :=
         Some (py_round2 (100 * (snd rp - avg_repetition_penalty r) /
                          guarded_range (fst rp) (snd rp)))\<rparr>"

text \<open>
  A dictionary entry counts as rounded when the key is present and \<^verbatim>\<open>round(v, 2)\<close>
  leaves its value unchanged. \<open>rounded_last rows r\<close> says that the four \<^verbatim>\<open>norm_*\<close>
  entries of \<open>r\<close> are the roundings of quantities computed from the unrounded
  \<^verbatim>\<open>avg_*\<close> entries of the view \<open>rows\<close>.
\<close>

definition rounded2 :: "rat option \<Rightarrow> bool" where
  "rounded2 v = (case v of None \<Rightarrow> False | Some x \<Rightarrow> py_round2 x = x)"

definition rounded_last :: "'a row_scheme list \<Rightarrow> 'a row_scheme \<Rightarrow> bool" where
  "rounded_last rows r =
     (let fks = avg_fk_grade ` set rows; rps = avg_repetition_penalty ` set rows
      in norm_lexical_diversity r = Some (py_round2 (avg_lexical_diversity r)) \<and>
         norm_query_coverage r = Some (py_round2 (avg_query_coverage r)) \<and>
         norm_fk_grade r =
           Some (py_round2 (100 * (avg_fk_grade r - Min fks) / guarded_range (Min fks) (Max fks))) \<and>
         norm_repetition_penalty r =
           Some (py_round2 (100 * (Max rps - avg_repetition_penalty r) /
                            guarded_range (Min rps) (Max rps))))"

subsection \<open>Sample tables\<close>

text \<open>
  Stored runs for the concrete evaluations below: \<open>stored_run i m t ld fk rp\<close> is run
  \<open>i\<close> of model \<open>m\<close> at temperature \<open>t\<close> with the given lexical diversity,
  Flesch-Kincaid grade and repetition penalty.
\<close>

definition stored_run :: "nat \<Rightarrow> string \<Rightarrow> rat \<Rightarrow> rat \<Rightarrow> rat \<Rightarrow> rat \<Rightarrow> evaluation" where
  "stored_run i m t ld fk rp =
     \<lparr>ev_id = i, ev_prompt = ''Explain recursion'', ev_model = m, ev_temperature = t,
      ev_top_p = 9 / 10, ev_lexical_diversity = ld, ev_query_coverage = 100,
      ev_flesch_kincaid_grade = fk, ev_repetition_penalty = rp\<rparr>"

definition two_group_table :: "evaluation list" where
  "two_group_table =
     [stored_run 1 ''model-a'' (1 / 2) 80 3 10, stored_run 2 ''model-a'' (1 / 2) 60 5 30,
      stored_run 3 ''model-b'' (1 / 2) 75 10 0]"

definition three_group_table :: "evaluation list" where
  "three_group_table =
     [stored_run 1 ''model-a'' (1 / 2) 80 0 0, stored_run 2 ''model-b'' (1 / 2) 60 1 10,
      stored_run 3 ''model-c'' (1 / 2) 75 3 30]"

definition one_group_table :: "evaluation list" where
  "one_group_table =
     [stored_run 1 ''model-a'' (1 / 2) (100 / 3) 7 25, stored_run 2 ''model-a'' (1 / 2) (100 / 3) 8 50]"

section \<open>Properties of metrics.py\<close>

subsection \<open>Syllable counting\<close>

lemma syllable_loop_starts:
  "syllable_loop w c p =
     c + int (length (filter (\<lambda>i. is_vowel (w ! i) \<and>
                (if i = 0 then \<not> p else \<not> is_vowel (w ! (i - 1)))) [0 ..< length w]))"
proof (induction w arbitrary: c p)
  case Nil
  then show ?case by simp
next
  case (Cons ch rest)
  have up: "[0 ..< length (ch # rest)] = 0 # map Suc [0 ..< length rest]"
    by (simp add: upt_conv_Cons map_Suc_upt del: upt_Suc)
  have inner:
    "filter ((\<lambda>i. is_vowel ((ch # rest) ! i) \<and>
                (if i = 0 then \<not> p else \<not> is_vowel ((ch # rest) ! (i - 1)))) \<circ> Suc)
        [0 ..< length rest]
     = filter (\<lambda>i. is_vowel (rest ! i) \<and>
                (if i = 0 then \<not> is_vowel ch else \<not> is_vowel (rest ! (i - 1))))
        [0 ..< length rest]"
    by (rule filter_cong) (auto simp: nth_Cons')
  show ?case
    unfolding up
    by (simp add: Cons.IH filter_map inner Let_def del: upt_Suc)
qed

lemma syllable_loop_eq: "syllable_loop w 0 False = int (vowel_group_starts w)"
proof -
  have "filter (\<lambda>i. is_vowel (w ! i) \<and>
                  (if i = 0 then \<not> False else \<not> is_vowel (w ! (i - 1)))) [0 ..< length w]
      = filter (\<lambda>i. is_vowel (w ! i) \<and> (i = 0 \<or> \<not> is_vowel (w ! (i - 1))))
          [0 ..< length w]"
    by (rule filter_cong) auto
  then show ?thesis
    unfolding vowel_group_starts_def syllable_loop_starts by simp
qed

text \<open>
  Claim C8. The syllable counter returns at least 1 for every word, so in particular for
  every non-empty one. Its count before adjustment is the number of positions where a
  vowel group starts (a vowel out of a, e, i, o, u, y that is first or follows a
  non-vowel) in the lower-cased word; one is subtracted for a trailing \<open>e\<close> exactly when
  that count exceeds 1, and otherwise the count is only raised to 1 when it is 0.
\<close>

theorem count_syllables_spec:
  "1 \<le> count_syllables w \<and>
   (let word = lower w; g = int (vowel_group_starts word)
    in (endswith_e word \<and> g > 1 \<longrightarrow> count_syllables w = g - 1) \<and>
       (\<not> (endswith_e word \<and> g > 1) \<longrightarrow> count_syllables w = max g 1))"
  by (simp add: count_syllables_def Let_def syllable_loop_eq)

theorem count_syllables_spec_witness:
  "count_syllables ''Table'' = 1 \<and> vowel_group_starts (lower ''Table'') = 2 \<and> endswith_e (lower ''Table'')
   \<and> count_syllables ''banana'' = 3 \<and> \<not> endswith_e (lower ''banana'')
   \<and> count_syllables ''the'' = 1 \<and> vowel_group_starts (lower ''the'') = 1"
proof -
  have t: "vowel_group_starts (lower ''Table'') = 2" "endswith_e (lower ''Table'')"
    by (simp_all add: vowel_group_starts_def lower_def lower_char_def is_vowel_def endswith_e_def)
  have b: "vowel_group_starts (lower ''banana'') = 3" "\<not> endswith_e (lower ''banana'')"
    by (simp_all add: vowel_group_starts_def lower_def lower_char_def is_vowel_def endswith_e_def)
  have h: "vowel_group_starts (lower ''the'') = 1"
    by (simp_all add: vowel_group_starts_def lower_def lower_char_def is_vowel_def endswith_e_def)
  show ?thesis
    using count_syllables_spec [of "''Table''"] count_syllables_spec [of "''banana''"]
      count_syllables_spec [of "''the''"] t b h
    by (simp add: Let_def)
qed

subsection \<open>Repetition penalty\<close>

lemma truediv_Inr: "b \<noteq> 0 \<Longrightarrow> truediv a b = Inr (a / b)"
  by (simp add: truediv_def)

lemma ngrams_set:
  "set (map (\<lambda>i. take n (drop i ts)) [0 ..< k]) = (\<lambda>i. take n (drop i ts)) ` {..< k}"
  by (simp only: set_map set_upt atLeast0LessThan)

lemma ratio_for_n_eq: "ratio_for_n ts n = Inr (ngram_repeat_ratio n ts)"
proof (cases "length ts < n")
  case True
  then show ?thesis by (simp add: ratio_for_n_def ngram_repeat_ratio_def)
next
  case False
  define k where "k = length ts - n + 1"
  have k: "k \<noteq> 0" "rat_of_nat k \<noteq> 0" by (simp_all add: k_def)
  have "ratio_for_n ts n =
      Inr (of_int (int k - int (card ((\<lambda>i. take n (drop i ts)) ` {..< k}))) / of_nat k * 100)"
    using False k unfolding ratio_for_n_def Let_def k_def [symmetric] ngrams_set
    by (simp add: truediv_Inr)
  also have "\<dots> = Inr (ngram_repeat_ratio n ts)"
    using False unfolding ngram_repeat_ratio_def Let_def k_def [symmetric]
    by simp
  finally show ?thesis .
qed

lemma ngram_repeat_ratio_nonneg: "0 \<le> ngram_repeat_ratio n ts"
proof (cases "length ts < n")
  case True
  then show ?thesis by (simp add: ngram_repeat_ratio_def)
next
  case False
  define k where "k = length ts - n + 1"
  have "card ((\<lambda>i. take n (drop i ts)) ` {..< k}) \<le> k"
    using card_image_le [of "{..< k}" "\<lambda>i. take n (drop i ts)"] by simp
  then have "0 \<le> 100 * (rat_of_nat k - of_nat (card ((\<lambda>i. take n (drop i ts)) ` {..< k}))) / of_nat k"
    by simp
  then show ?thesis
    using False unfolding ngram_repeat_ratio_def Let_def k_def [symmetric] by simp
qed

lemma repetition_penalty_fn_eq:
  "repetition_penalty_fn ts =
     Inr (if ngram_repeat_ratio 3 ts = 0 \<and> length ts < 50 then ngram_repeat_ratio 2 ts
          else ngram_repeat_ratio 3 ts)"
  using ngram_repeat_ratio_nonneg [of 3 ts]
  by (auto simp: repetition_penalty_fn_def ratio_for_n_eq)

text \<open>
  Claim C2. The repetition penalty never raises and is the trigram repeat ratio, except
  that it is the bigram repeat ratio when the trigram ratio is exactly 0 and there are
  fewer than 50 tokens. The code's ratio for any \<open>n\<close> is the documented
  \<open>100 * (total - unique) / total\<close>, it is 0 when there are fewer than \<open>n\<close> tokens,
  and the result is always one of the two ratios, never a mixture of them.
\<close>

theorem repetition_penalty_two_tier:
  "repetition_penalty_fn ts =
     Inr (if ngram_repeat_ratio 3 ts = 0 \<and> length ts < 50 then ngram_repeat_ratio 2 ts
          else ngram_repeat_ratio 3 ts) \<and>
   ratio_for_n ts n = Inr (ngram_repeat_ratio n ts) \<and>
   (length ts < n \<longrightarrow> ratio_for_n ts n = Inr 0) \<and>
   (repetition_penalty_fn ts = ratio_for_n ts 3 \<or> repetition_penalty_fn ts = ratio_for_n ts 2)"
  by (simp add: repetition_penalty_fn_eq ratio_for_n_eq ngram_repeat_ratio_def)

theorem repetition_penalty_two_tier_witness:
  "length [''a'', ''b'', ''a'', ''b''] < (5::nat) \<and>
   ratio_for_n [''a'', ''b'', ''a'', ''b''] 5 = Inr 0 \<and>
   ngram_repeat_ratio 3 [''a'', ''b'', ''a'', ''b''] = 0 \<and>
   repetition_penalty_fn [''a'', ''b'', ''a'', ''b''] = Inr (100 / 3)"
proof -
  have r3: "ngram_repeat_ratio 3 [''a'', ''b'', ''a'', ''b''] = 0" by code_simp
  have r2: "ngram_repeat_ratio 2 [''a'', ''b'', ''a'', ''b''] = 100 / 3" by code_simp
  have r5: "ngram_repeat_ratio 5 [''a'', ''b'', ''a'', ''b''] = 0"
    by (simp add: ngram_repeat_ratio_def)
  show ?thesis
    using repetition_penalty_two_tier [of "[''a'', ''b'', ''a'', ''b'']" 5] r3 r2 r5
    by simp
qed

subsection \<open>The metrics record\<close>

lemma flesch_kincaid_grade_fn_eq:
  "flesch_kincaid_grade_fn s w y =
     Inr (if s \<le> 0 \<or> w \<le> 0 then 0
          else 39 / 100 * (of_int w / of_int s) + 118 / 10 * (of_int y / of_int w) - 1559 / 100)"
  by (simp add: flesch_kincaid_grade_fn_def truediv_Inr)

lemma calculate_metrics_nonempty:
  assumes "wt (lower (or_empty response)) = tokens" and "tokens \<noteq> []"
  shows "\<exists>fk rp. calculate_metrics wt st sw prompt response =
     Inr \<lparr>lexical_diversity = of_nat (card (set tokens)) / of_nat (length tokens) * 100,
          query_coverage =
            (let kw = set (wt (lower (or_empty prompt))) - set sw
             in if kw \<noteq> {} then of_nat (card (kw \<inter> set tokens)) / of_nat (card kw) * 100 else 100),
          flesch_kincaid_grade = fk, repetition_penalty = rp\<rparr>"
proof -
  let ?kw = "set (wt (lower (or_empty prompt))) - set sw"
  have fin: "finite ?kw" by simp
  have kw: "?kw \<noteq> {} \<Longrightarrow> rat_of_nat (card ?kw) \<noteq> 0"
    using fin by (simp add: card_eq_0_iff del: set_diff_eq)
  show ?thesis
    using assms kw
    by (simp add: calculate_metrics_def Let_def truediv_Inr flesch_kincaid_grade_fn_eq
        repetition_penalty_fn_eq)
qed

text \<open>
  Claim C6. When the tokenizer finds no token in the lower-cased response, the result is
  the record with all four fields 0 and no exception; for a tokenizer that finds no
  token in the empty string, this is the result on an empty prompt and empty response.
\<close>

theorem calculate_metrics_zero_tokens:
  "(wt (lower (or_empty response)) = [] \<longrightarrow>
      calculate_metrics wt st sw prompt response =
        Inr \<lparr>lexical_diversity = 0, query_coverage = 0,
             flesch_kincaid_grade = 0, repetition_penalty = 0\<rparr>) \<and>
   (wt '''' = [] \<longrightarrow>
      calculate_metrics wt st sw (Some '''') (Some '''') =
        Inr \<lparr>lexical_diversity = 0, query_coverage = 0,
             flesch_kincaid_grade = 0, repetition_penalty = 0\<rparr>)"
  by (simp add: calculate_metrics_def or_empty_def lower_def)

theorem calculate_metrics_zero_tokens_witness:
  "space_tokenize (lower (or_empty (Some ''   ''))) = [] \<and> space_tokenize '''' = [] \<and>
   calculate_metrics space_tokenize stop_tokenize [''the''] (Some ''the cat'') (Some ''   '') =
     Inr \<lparr>lexical_diversity = 0, query_coverage = 0,
          flesch_kincaid_grade = 0, repetition_penalty = 0\<rparr> \<and>
   calculate_metrics space_tokenize stop_tokenize [''the''] (Some '''') (Some '''') =
     Inr \<lparr>lexical_diversity = 0, query_coverage = 0,
          flesch_kincaid_grade = 0, repetition_penalty = 0\<rparr>"
proof -
  have h1: "space_tokenize (lower (or_empty (Some ''   ''))) = []"
    by (simp add: space_tokenize_def lower_def lower_char_def or_empty_def)
  have h2: "space_tokenize '''' = []"
    by (simp add: space_tokenize_def)
  show ?thesis
    using h1 h2
      calculate_metrics_zero_tokens [of space_tokenize "Some ''   ''" stop_tokenize "[''the'']" "Some ''the cat''"]
    by simp
qed

text \<open>
  Claim C10. \<^verbatim>\<open>None\<close> in place of the prompt or of the response gives the same result as
  the empty string there, and with both \<^verbatim>\<open>None\<close> (and a tokenizer that finds no token in
  the empty string) the result is the all-zero record, not an exception.
\<close>

theorem calculate_metrics_none:
  "calculate_metrics wt st sw None response = calculate_metrics wt st sw (Some '''') response \<and>
   calculate_metrics wt st sw prompt None = calculate_metrics wt st sw prompt (Some '''') \<and>
   (wt '''' = [] \<longrightarrow>
      calculate_metrics wt st sw None None =
        Inr \<lparr>lexical_diversity = 0, query_coverage = 0,
             flesch_kincaid_grade = 0, repetition_penalty = 0\<rparr>)"
proof -
  have e: "or_empty None = or_empty (Some [])"
    by (simp add: or_empty_def)
  have p: "calculate_metrics wt st sw None response =
           calculate_metrics wt st sw (Some []) response"
    unfolding calculate_metrics_def e by (rule refl)
  have r: "calculate_metrics wt st sw prompt None =
           calculate_metrics wt st sw prompt (Some [])"
    unfolding calculate_metrics_def e by (rule refl)
  have z: "wt [] = [] \<Longrightarrow> calculate_metrics wt st sw None None =
        Inr \<lparr>lexical_diversity = 0, query_coverage = 0,
             flesch_kincaid_grade = 0, repetition_penalty = 0\<rparr>"
    by (simp add: calculate_metrics_def or_empty_def lower_def)
  show ?thesis using p r z by blast
qed

theorem calculate_metrics_none_witness:
  "space_tokenize '''' = [] \<and>
   calculate_metrics space_tokenize stop_tokenize [''the''] None None =
     Inr \<lparr>lexical_diversity = 0, query_coverage = 0,
          flesch_kincaid_grade = 0, repetition_penalty = 0\<rparr>"
proof -
  have h: "space_tokenize '''' = []"
    by (simp add: space_tokenize_def)
  show ?thesis
    using h calculate_metrics_none [where wt = space_tokenize and st = stop_tokenize
        and sw = "[''the'']"]
    by blast
qed

text \<open>
  Claim C7. When the response has at least one token, the call returns a record whose
  lexical diversity is \<open>100 * |unique tokens| / |tokens|\<close>, lies in the interval
  \<open>(0, 100]\<close>, and is 100 exactly when the tokens are pairwise distinct.
\<close>

theorem lexical_diversity_bounds:
  assumes "wt (lower (or_empty response)) = tokens" and "tokens \<noteq> []"
  shows "\<exists>m. calculate_metrics wt st sw prompt response = Inr m \<and>
           lexical_diversity m = 100 * of_nat (card (set tokens)) / of_nat (length tokens) \<and>
           0 < lexical_diversity m \<and> lexical_diversity m \<le> 100 \<and>
           (lexical_diversity m = 100 \<longleftrightarrow> distinct tokens)"
proof -
  obtain fk rp qc where m: "calculate_metrics wt st sw prompt response =
     Inr \<lparr>lexical_diversity = of_nat (card (set tokens)) / of_nat (length tokens) * 100,
          query_coverage = qc, flesch_kincaid_grade = fk, repetition_penalty = rp\<rparr>"
    using assms calculate_metrics_nonempty [where wt = wt and response = response
        and tokens = tokens and st = st and sw = sw and prompt = prompt]
    by blast
  have len: "0 < length tokens" using assms(2) by simp
  have c0: "0 < card (set tokens)" using assms(2) by (simp add: card_gt_0_iff)
  have cl: "card (set tokens) \<le> length tokens" by (rule card_length)
  have pos: "0 < rat_of_nat (card (set tokens)) / of_nat (length tokens) * 100"
    using len c0 by simp
  have le: "rat_of_nat (card (set tokens)) / of_nat (length tokens) * 100 \<le> 100"
    using len cl by (simp add: divide_le_eq)
  have "rat_of_nat (card (set tokens)) / of_nat (length tokens) * 100 = 100
          \<longleftrightarrow> card (set tokens) = length tokens"
    using len by (simp add: divide_eq_eq)
  also have "\<dots> \<longleftrightarrow> distinct tokens"
    using card_distinct distinct_card by blast
  finally have iff: "rat_of_nat (card (set tokens)) / of_nat (length tokens) * 100 = 100
          \<longleftrightarrow> distinct tokens" .
  show ?thesis
    using m pos le iff by simp
qed

theorem lexical_diversity_bounds_witness:
  "space_tokenize (lower (or_empty (Some ''A b a''))) = [''a'', ''b'', ''a''] \<and>
   [''a'', ''b'', ''a''] \<noteq> ([] :: string list) \<and>
   (\<exists>m. calculate_metrics space_tokenize stop_tokenize [''the''] (Some ''the b'') (Some ''A b a'')
          = Inr m \<and>
        lexical_diversity m = 200 / 3 \<and> 0 < lexical_diversity m \<and>
        lexical_diversity m \<le> 100 \<and> lexical_diversity m \<noteq> 100)"
proof -
  have h1: "space_tokenize (lower (or_empty (Some ''A b a''))) = [''a'', ''b'', ''a'']"
    by (simp add: space_tokenize_def lower_def lower_char_def or_empty_def)
  have h2: "[''a'', ''b'', ''a''] \<noteq> ([] :: string list)" by simp
  show ?thesis
    using h1 h2 lexical_diversity_bounds [where wt = space_tokenize
        and response = "Some ''A b a''" and tokens = "[''a'', ''b'', ''a'']"
        and st = stop_tokenize and sw = "[''the'']" and prompt = "Some ''the b''"]
    by (auto simp: card_insert_if)
qed

text \<open>
  Claim C1, amended. When the prompt has no keyword left after removing the stop words
  and the response has at least one token, the query coverage is exactly 100. (With a
  response of zero tokens the early return gives the all-zero record, coverage 0
  included: see the counterexample below.)
\<close>

theorem query_coverage_no_keywords:
  assumes "set (wt (lower (or_empty prompt))) - set sw = {}"
    and "wt (lower (or_empty response)) \<noteq> []"
  shows "\<exists>m. calculate_metrics wt st sw prompt response = Inr m \<and> query_coverage m = 100"
proof -
  obtain fk rp where "calculate_metrics wt st sw prompt response =
     Inr \<lparr>lexical_diversity =
            of_nat (card (set (wt (lower (or_empty response))))) /
            of_nat (length (wt (lower (or_empty response)))) * 100,
          query_coverage =
            (let kw = set (wt (lower (or_empty prompt))) - set sw
             in if kw \<noteq> {}
                then of_nat (card (kw \<inter> set (wt (lower (or_empty response))))) /
                     of_nat (card kw) * 100
                else 100),
          flesch_kincaid_grade = fk, repetition_penalty = rp\<rparr>"
    using assms(2) calculate_metrics_nonempty [where wt = wt and response = response
        and tokens = "wt (lower (or_empty response))" and st = st and sw = sw and prompt = prompt]
    by blast
  then show ?thesis
    using assms(1) by (simp add: Let_def)
qed

theorem query_coverage_no_keywords_witness:
  "set (space_tokenize (lower (or_empty (Some ''The a'')))) - set [''the'', ''a''] = {} \<and>
   space_tokenize (lower (or_empty (Some ''cats sleep''))) \<noteq> [] \<and>
   (\<exists>m. calculate_metrics space_tokenize stop_tokenize [''the'', ''a'']
           (Some ''The a'') (Some ''cats sleep'') = Inr m \<and> query_coverage m = 100)"
proof -
  have h1: "set (space_tokenize (lower (or_empty (Some ''The a'')))) - set [''the'', ''a''] = {}"
    by (simp add: space_tokenize_def lower_def lower_char_def or_empty_def)
  have h2: "space_tokenize (lower (or_empty (Some ''cats sleep''))) \<noteq> []"
    by (simp add: space_tokenize_def lower_def lower_char_def or_empty_def)
  show ?thesis
    using h1 h2 query_coverage_no_keywords [where wt = space_tokenize
        and prompt = "Some ''The a''" and sw = "[''the'', ''a'']"
        and response = "Some ''cats sleep''" and st = stop_tokenize]
    by blast
qed

theorem query_coverage_empty_response_counterexample:
  "set (space_tokenize (lower (or_empty (Some ''The a'')))) - set [''the'', ''a''] = {} \<and>
   map_sum id query_coverage
     (calculate_metrics space_tokenize stop_tokenize [''the'', ''a''] (Some ''The a'') (Some ''''))
     = Inr 0 \<and>
   map_sum id query_coverage
     (calculate_metrics space_tokenize stop_tokenize [''the'', ''a''] (Some ''The a'') (Some ''''))
     \<noteq> Inr 100"
  by (simp add: calculate_metrics_def space_tokenize_def lower_def lower_char_def or_empty_def)

section \<open>Properties of analytics.py\<close>

subsection \<open>The normalisation never raises\<close>

lemma guarded_range_nonzero: "guarded_range a b \<noteq> 0"
  by (simp add: guarded_range_def)

lemma norm_high_is_better_eq:
  "norm_high_is_better x vmin vmax = Inr (100 * (x - vmin) / guarded_range vmin vmax)"
  unfolding norm_high_is_better_def Let_def guarded_range_def [symmetric]
  by (rule truediv_Inr) (rule guarded_range_nonzero)

lemma norm_low_is_better_eq:
  "norm_low_is_better x vmin vmax = Inr (100 * (vmax - x) / guarded_range vmin vmax)"
  unfolding norm_low_is_better_def Let_def guarded_range_def [symmetric]
  by (rule truediv_Inr) (rule guarded_range_nonzero)

lemma normalize_row_eq: "normalize_row fk rp r = Inr (normalized_row fk rp r)"
  by (simp add: normalize_row_def normalized_row_def norm_high_is_better_eq norm_low_is_better_eq)

lemma for_each_Inr: "(\<And>x. f x = Inr (g x)) \<Longrightarrow> for_each f xs = Inr (map g xs)"
  by (induction xs) simp_all

lemma map_filter_Some: "List.map_filter (\<lambda>v. v) (map (\<lambda>r. Some (f r)) rows) = map f rows"
  by (induction rows) (simp_all add: List.map_filter_simps)

lemma min_max_Some:
  "rows \<noteq> [] \<Longrightarrow>
   min_max (map (\<lambda>r. Some (f r)) rows) = (Min (f ` set rows), Max (f ` set rows))"
  by (simp add: min_max_def map_filter_Some)

lemma normalize_eq:
  "normalize rows =
     Inr (map (normalized_row
                (Min (avg_fk_grade ` set rows), Max (avg_fk_grade ` set rows))
                (Min (avg_repetition_penalty ` set rows), Max (avg_repetition_penalty ` set rows)))
            rows)"
proof (cases "rows = []")
  case True
  then show ?thesis by (simp add: normalize_def)
next
  case False
  then show ?thesis
    unfolding normalize_def Let_def
    by (simp add: min_max_Some for_each_Inr [OF normalize_row_eq])
qed

lemma get_analytics_eq:
  "get_analytics db =
     Inr \<lparr>scatter_data =
            map (normalized_row
                  (Min (avg_fk_grade ` set (query_scatter db)),
                   Max (avg_fk_grade ` set (query_scatter db)))
                  (Min (avg_repetition_penalty ` set (query_scatter db)),
                   Max (avg_repetition_penalty ` set (query_scatter db))))
              (query_scatter db),
          model_comparison =
            map (normalized_row
                  (Min (avg_fk_grade ` set (query_compare db)),
                   Max (avg_fk_grade ` set (query_compare db)))
                  (Min (avg_repetition_penalty ` set (query_compare db)),
                   Max (avg_repetition_penalty ` set (query_compare db))))
              (query_compare db),
          kpi = \<lparr>overall_avg_lexical_diversity = kpi_field (sql_avg (map ev_lexical_diversity db)),
                  overall_avg_query_coverage = kpi_field (sql_avg (map ev_query_coverage db)),
                  overall_avg_fk_grade = kpi_field (sql_avg (map ev_flesch_kincaid_grade db)),
                  overall_avg_repetition_penalty =
                    kpi_field (sql_avg (map ev_repetition_penalty db))\<rparr>\<rparr>"
  unfolding get_analytics_def Let_def query_overall_def
  by (simp add: normalize_eq)

lemma get_analytics_views:
  assumes "get_analytics db = Inr out"
  shows "normalize (query_scatter db) = Inr (scatter_data out)"
    and "normalize (query_compare db) = Inr (model_comparison out)"
    and "kpi out = \<lparr>overall_avg_lexical_diversity = kpi_field (sql_avg (map ev_lexical_diversity db)),
                  overall_avg_query_coverage = kpi_field (sql_avg (map ev_query_coverage db)),
                  overall_avg_fk_grade = kpi_field (sql_avg (map ev_flesch_kincaid_grade db)),
                  overall_avg_repetition_penalty =
                    kpi_field (sql_avg (map ev_repetition_penalty db))\<rparr>"
  using assms unfolding get_analytics_eq normalize_eq by auto

subsection \<open>Rounding\<close>

lemma round_half_even_of_int: "round_half_even (of_int k) = k"
  by (simp add: round_half_even_def)

lemma py_round2_idem: "py_round2 (py_round2 x) = py_round2 x"
  by (simp add: py_round2_def round_half_even_of_int)

lemma py_round2_0: "py_round2 0 = 0"
  by (simp add: py_round2_def round_half_even_def)

lemma py_round2_100: "py_round2 100 = 100"
proof -
  have "py_round2 100 = of_int (round_half_even (of_int 10000)) / 100"
    by (simp add: py_round2_def)
  then show ?thesis by (simp only: round_half_even_of_int)
qed

lemma kpi_field_rounded: "py_round2 (kpi_field v) = kpi_field v"
  by (cases v) (simp_all add: kpi_field_def py_round2_0 py_round2_idem)

lemma rounded2_round: "rounded2 (Some (py_round2 x))"
  by (simp add: rounded2_def py_round2_idem)

subsection \<open>Min-max rescaling\<close>

lemma avg_normalized_row [simp]:
  "avg_fk_grade (normalized_row fk rp r) = avg_fk_grade r"
  "avg_repetition_penalty (normalized_row fk rp r) = avg_repetition_penalty r"
  "avg_lexical_diversity (normalized_row fk rp r) = avg_lexical_diversity r"
  "avg_query_coverage (normalized_row fk rp r) = avg_query_coverage r"
  by (simp_all add: normalized_row_def)

lemma norm_normalized_row:
  "norm_lexical_diversity (normalized_row fk rp r) = Some (py_round2 (avg_lexical_diversity r))"
  "norm_query_coverage (normalized_row fk rp r) = Some (py_round2 (avg_query_coverage r))"
  "norm_fk_grade (normalized_row fk rp r) =
     Some (py_round2 (100 * (avg_fk_grade r - fst fk) / guarded_range (fst fk) (snd fk)))"
  "norm_repetition_penalty (normalized_row fk rp r) =
     Some (py_round2 (100 * (snd rp - avg_repetition_penalty r) / guarded_range (fst rp) (snd rp)))"
  by (simp_all add: normalized_row_def)

lemma normalize_rescaled:
  assumes "normalize rows = Inr rows'" and "r \<in> set rows'"
  shows "(Max (avg_fk_grade ` set rows') \<noteq> Min (avg_fk_grade ` set rows') \<longrightarrow>
            norm_fk_grade r =
              Some (py_round2 (rescale_high_is_better (avg_fk_grade ` set rows') (avg_fk_grade r)))) \<and>
         (Max (avg_repetition_penalty ` set rows') \<noteq> Min (avg_repetition_penalty ` set rows') \<longrightarrow>
            norm_repetition_penalty r =
              Some (py_round2 (rescale_low_is_better (avg_repetition_penalty ` set rows')
                                 (avg_repetition_penalty r))))"
proof -
  let ?fk = "(Min (avg_fk_grade ` set rows), Max (avg_fk_grade ` set rows))"
  let ?rp = "(Min (avg_repetition_penalty ` set rows), Max (avg_repetition_penalty ` set rows))"
  have rows': "rows' = map (normalized_row ?fk ?rp) rows"
    using assms(1) by (simp add: normalize_eq)
  have fk: "avg_fk_grade ` set rows' = avg_fk_grade ` set rows"
    by (simp add: rows' image_image)
  have rp: "avg_repetition_penalty ` set rows' = avg_repetition_penalty ` set rows"
    by (simp add: rows' image_image)
  obtain r0 where r0: "r0 \<in> set rows" "r = normalized_row ?fk ?rp r0"
    using assms(2) rows' by auto
  show ?thesis
    unfolding fk rp r0(2)
    by (simp add: norm_normalized_row rescale_high_is_better_def rescale_low_is_better_def
        guarded_range_def)
qed

lemma normalize_two_groups:
  assumes "normalize rows = Inr rows'" and "map avg_fk_grade rows' = [4, 10]"
  shows "map norm_fk_grade rows' = [Some 0, Some 100]"
proof -
  obtain a b where ab: "rows' = [a, b]" "avg_fk_grade a = 4" "avg_fk_grade b = 10"
    using assms(2) by (auto simp: map_eq_Cons_conv)
  have s: "avg_fk_grade ` set rows' = {4, 10}"
    using ab by auto
  have mm: "Min {4, 10 :: rat} = 4" "Max {4, 10 :: rat} = 10"
    by simp_all
  have a: "norm_fk_grade a = Some 0"
    using normalize_rescaled [OF assms(1), of a] ab
    by (simp add: s mm rescale_high_is_better_def py_round2_0)
  have b: "norm_fk_grade b = Some 100"
    using normalize_rescaled [OF assms(1), of b] ab
    by (simp add: s mm rescale_high_is_better_def py_round2_100)
  show ?thesis using ab a b by simp
qed

text \<open>
  Claim C3, amended. In each view of the output, when the group averages of a metric are
  not all equal, the normalised Flesch-Kincaid grade of a row is
  \<open>100 * (x - min) / (max - min)\<close> rounded to two decimal places, and its normalised
  repetition penalty is \<open>100 * (max - x) / (max - min)\<close> rounded to two decimal places,
  with \<open>min\<close> and \<open>max\<close> taken over that view's group averages. For two groups with
  grade averages 4 and 10 the normalised grades are 0 and 100.
\<close>

theorem norm_fields_min_max_rounded:
  assumes "get_analytics db = Inr out"
  shows "(\<forall>r \<in> set (scatter_data out).
            (Max (avg_fk_grade ` set (scatter_data out)) \<noteq> Min (avg_fk_grade ` set (scatter_data out)) \<longrightarrow>
               norm_fk_grade r =
                 Some (py_round2 (rescale_high_is_better (avg_fk_grade ` set (scatter_data out))
                                    (avg_fk_grade r)))) \<and>
            (Max (avg_repetition_penalty ` set (scatter_data out)) \<noteq>
               Min (avg_repetition_penalty ` set (scatter_data out)) \<longrightarrow>
               norm_repetition_penalty r =
                 Some (py_round2 (rescale_low_is_better (avg_repetition_penalty ` set (scatter_data out))
                                    (avg_repetition_penalty r))))) \<and>
         (\<forall>r \<in> set (model_comparison out).
            (Max (avg_fk_grade ` set (model_comparison out)) \<noteq>
               Min (avg_fk_grade ` set (model_comparison out)) \<longrightarrow>
               norm_fk_grade r =
                 Some (py_round2 (rescale_high_is_better (avg_fk_grade ` set (model_comparison out))
                                    (avg_fk_grade r)))) \<and>
            (Max (avg_repetition_penalty ` set (model_comparison out)) \<noteq>
               Min (avg_repetition_penalty ` set (model_comparison out)) \<longrightarrow>
               norm_repetition_penalty r =
                 Some (py_round2 (rescale_low_is_better
                                    (avg_repetition_penalty ` set (model_comparison out))
                                    (avg_repetition_penalty r))))) \<and>
         (map avg_fk_grade (scatter_data out) = [4, 10] \<longrightarrow>
            map norm_fk_grade (scatter_data out) = [Some 0, Some 100]) \<and>
         (map avg_fk_grade (model_comparison out) = [4, 10] \<longrightarrow>
            map norm_fk_grade (model_comparison out) = [Some 0, Some 100])"
  using normalize_rescaled [OF get_analytics_views(1) [OF assms]]
    normalize_rescaled [OF get_analytics_views(2) [OF assms]]
    normalize_two_groups [OF get_analytics_views(1) [OF assms]]
    normalize_two_groups [OF get_analytics_views(2) [OF assms]]
  by blast

theorem norm_fields_min_max_rounded_witness:
  "(\<exists>out. get_analytics two_group_table = Inr out \<and>
      map avg_fk_grade (scatter_data out) = [4, 10] \<and>
      map norm_fk_grade (scatter_data out) = [Some 0, Some 100] \<and>
      map avg_fk_grade (model_comparison out) = [4, 10] \<and>
      map norm_fk_grade (model_comparison out) = [Some 0, Some 100])"
proof -
  obtain out where out: "get_analytics two_group_table = Inr out"
    by (simp add: get_analytics_eq)
  have s: "map avg_fk_grade (query_scatter two_group_table) = [4, 10]"
    by code_simp
  have c: "map avg_fk_grade (query_compare two_group_table) = [4, 10]"
    by code_simp
  have s': "map avg_fk_grade (scatter_data out) = [4, 10]"
    using out s unfolding get_analytics_eq by (auto simp: comp_def)
  have c': "map avg_fk_grade (model_comparison out) = [4, 10]"
    using out c unfolding get_analytics_eq by (auto simp: comp_def)
  show ?thesis
    using out s' c' norm_fields_min_max_rounded [OF out, THEN conjunct2, THEN conjunct2]
    by (intro exI [of _ out]) simp
qed

theorem norm_unrounded_counterexample:
  "map_sum id (map avg_fk_grade \<circ> scatter_data) (get_analytics three_group_table)
     = Inr [0, 1, 3] \<and>
   map_sum id (map norm_fk_grade \<circ> scatter_data) (get_analytics three_group_table)
     = Inr [Some 0, Some (3333 / 100), Some 100] \<and>
   rescale_high_is_better {0, 1, 3} 1 = 100 / 3 \<and> (3333 / 100 :: rat) \<noteq> 100 / 3"
  by code_simp

subsection \<open>A single group\<close>

lemma remdups_single:
  "xs \<noteq> [] \<Longrightarrow> \<forall>x \<in> set xs. x = k \<Longrightarrow> remdups xs = [k]"
proof (induction xs)
  case Nil
  then show ?case by simp
next
  case (Cons a xs)
  show ?case
  proof (cases "xs = []")
    case True
    with Cons.prems show ?thesis by simp
  next
    case False
    then have "a \<in> set xs" using Cons.prems by (cases xs) auto
    moreover have "remdups xs = [k]" using Cons False by simp
    ultimately show ?thesis by simp
  qed
qed

lemma normalize_single:
  "\<exists>r'. normalize [r] = Inr [r'] \<and> norm_fk_grade r' = Some 0 \<and>
        norm_repetition_penalty r' = Some 0 \<and>
        avg_fk_grade r' = avg_fk_grade r \<and> avg_repetition_penalty r' = avg_repetition_penalty r"
proof -
  let ?r' = "normalized_row (avg_fk_grade r, avg_fk_grade r)
               (avg_repetition_penalty r, avg_repetition_penalty r) r"
  have n: "normalize [r] = Inr [?r']"
    unfolding normalize_eq by simp
  have "norm_fk_grade ?r' = Some 0" "norm_repetition_penalty ?r' = Some 0"
    by (simp_all add: norm_normalized_row py_round2_0)
  then show ?thesis using n by (intro exI [of _ ?r']) simp
qed

text \<open>
  Claim C4, amended. When all stored runs share one (model, temperature, top_p) key, no
  exception is raised, each view has exactly one row, the range of every metric in the
  view is 0, so that the epsilon denominator is used, and the normalised Flesch-Kincaid
  grade and the normalised repetition penalty of that row are both exactly 0 (not a
  value near 100).
\<close>

theorem single_group_normalizes_to_zero:
  assumes "db \<noteq> []" and "\<forall>e \<in> set db. scatter_key e = k"
  shows "\<exists>out r c. get_analytics db = Inr out \<and>
           scatter_data out = [r] \<and> model_comparison out = [c] \<and>
           Max (avg_fk_grade ` set (scatter_data out)) - Min (avg_fk_grade ` set (scatter_data out)) = 0 \<and>
           Max (avg_repetition_penalty ` set (scatter_data out)) -
             Min (avg_repetition_penalty ` set (scatter_data out)) = 0 \<and>
           norm_fk_grade r = Some 0 \<and> norm_repetition_penalty r = Some 0 \<and>
           norm_fk_grade c = Some 0 \<and> norm_repetition_penalty c = Some 0"
proof -
  have keys: "remdups (map scatter_key db) = [k]"
    using assms by (intro remdups_single) auto
  have "\<forall>m \<in> set (map ev_model db). m = fst k"
    using assms(2) by (auto simp: scatter_key_def)
  then have models: "remdups (map ev_model db) = [fst k]"
    using assms(1) by (intro remdups_single) auto
  have "\<exists>s. query_scatter db = [s]"
    unfolding query_scatter_def keys by simp
  then obtain s where s: "query_scatter db = [s]" ..
  have "\<exists>m. query_compare db = [m]"
    unfolding query_compare_def models by simp
  then obtain m where m: "query_compare db = [m]" ..
  have "\<exists>out. get_analytics db = Inr out"
    unfolding get_analytics_eq by (rule exI) (rule refl)
  then obtain out where out: "get_analytics db = Inr out" ..
  obtain r where r: "normalize [s] = Inr [r]" "norm_fk_grade r = Some 0"
      "norm_repetition_penalty r = Some 0"
    using normalize_single [of s] by blast
  obtain c where c: "normalize [m] = Inr [c]" "norm_fk_grade c = Some 0"
      "norm_repetition_penalty c = Some 0"
    using normalize_single [of m] by blast
  have sd: "scatter_data out = [r]"
    using get_analytics_views(1) [OF out] r(1) s by simp
  have mc: "model_comparison out = [c]"
    using get_analytics_views(2) [OF out] c(1) m by simp
  show ?thesis
    using out sd mc r c by simp
qed

theorem single_group_normalizes_to_zero_witness:
  "one_group_table \<noteq> [] \<and>
   map scatter_key one_group_table =
     [(''model-a'', 1 / 2, 9 / 10), (''model-a'', 1 / 2, 9 / 10)] \<and>
   (\<exists>out r c. get_analytics one_group_table = Inr out \<and>
           scatter_data out = [r] \<and> model_comparison out = [c] \<and>
           norm_fk_grade r = Some 0 \<and> norm_repetition_penalty r = Some 0 \<and>
           norm_fk_grade c = Some 0 \<and> norm_repetition_penalty c = Some 0)"
proof -
  have h1: "one_group_table \<noteq> []"
    by (simp add: one_group_table_def)
  have keys: "map scatter_key one_group_table =
      [(''model-a'', 1 / 2, 9 / 10), (''model-a'', 1 / 2, 9 / 10)]"
    by (simp add: one_group_table_def stored_run_def scatter_key_def)
  have h2: "\<forall>e \<in> set one_group_table. scatter_key e = (''model-a'', 1 / 2, 9 / 10)"
    by (simp add: one_group_table_def stored_run_def scatter_key_def)
  show ?thesis
    using h1 keys single_group_normalizes_to_zero [OF h1 h2] by blast
qed

theorem single_group_near_100_counterexample:
  "map_sum id (map norm_fk_grade \<circ> scatter_data) (get_analytics one_group_table) = Inr [Some 0] \<and>
   map_sum id (map norm_repetition_penalty \<circ> scatter_data) (get_analytics one_group_table)
     = Inr [Some 0] \<and>
   map_sum id (map norm_fk_grade \<circ> model_comparison) (get_analytics one_group_table)
     = Inr [Some 0] \<and>
   map_sum id (map norm_repetition_penalty \<circ> model_comparison) (get_analytics one_group_table)
     = Inr [Some 0] \<and>
   map_sum id (map run_count \<circ> scatter_data) (get_analytics one_group_table) = Inr [2]"
  by code_simp

subsection \<open>Where rounding happens\<close>

lemma normalize_rounded_last:
  assumes "normalize rows = Inr rows'" and "r \<in> set rows'"
  shows "rounded_last rows' r"
proof -
  let ?fk = "(Min (avg_fk_grade ` set rows), Max (avg_fk_grade ` set rows))"
  let ?rp = "(Min (avg_repetition_penalty ` set rows), Max (avg_repetition_penalty ` set rows))"
  have rows': "rows' = map (normalized_row ?fk ?rp) rows"
    using assms(1) by (simp add: normalize_eq)
  have fk: "avg_fk_grade ` set rows' = avg_fk_grade ` set rows"
    by (simp add: rows' image_image)
  have rp: "avg_repetition_penalty ` set rows' = avg_repetition_penalty ` set rows"
    by (simp add: rows' image_image)
  obtain r0 where r0: "r0 \<in> set rows" "r = normalized_row ?fk ?rp r0"
    using assms(2) rows' by auto
  show ?thesis
    unfolding rounded_last_def Let_def fk rp r0(2)
    by (simp add: norm_normalized_row)
qed

lemma rounded_last_rounded2:
  assumes "rounded_last rows r"
  shows "rounded2 (norm_lexical_diversity r) \<and> rounded2 (norm_query_coverage r) \<and>
         rounded2 (norm_fk_grade r) \<and> rounded2 (norm_repetition_penalty r)"
  using assms unfolding rounded_last_def Let_def
  by (simp add: rounded2_round)

lemma normalize_keeps_avg:
  assumes "normalize rows = Inr rows'"
  shows "map avg_lexical_diversity rows' = map avg_lexical_diversity rows \<and>
         map avg_query_coverage rows' = map avg_query_coverage rows \<and>
         map avg_fk_grade rows' = map avg_fk_grade rows \<and>
         map avg_repetition_penalty rows' = map avg_repetition_penalty rows"
  using assms unfolding normalize_eq by (auto simp: comp_def)

text \<open>
  Claim C5, amended. Every \<^verbatim>\<open>norm_*\<close> field of every scatter row and comparison row,
  and every field of the kpi block, is a value rounded to two decimal places. The
  \<^verbatim>\<open>avg_*\<close> fields of the rows are the group averages as the queries returned them,
  not rounded, and the normalised values are the roundings of quantities computed from
  those unrounded averages: rounding is the last step.
\<close>

theorem output_rounding:
  assumes "get_analytics db = Inr out"
  shows "(\<forall>r \<in> set (scatter_data out).
            rounded_last (scatter_data out) r \<and>
            rounded2 (norm_lexical_diversity r) \<and> rounded2 (norm_query_coverage r) \<and>
            rounded2 (norm_fk_grade r) \<and> rounded2 (norm_repetition_penalty r)) \<and>
         (\<forall>r \<in> set (model_comparison out).
            rounded_last (model_comparison out) r \<and>
            rounded2 (norm_lexical_diversity r) \<and> rounded2 (norm_query_coverage r) \<and>
            rounded2 (norm_fk_grade r) \<and> rounded2 (norm_repetition_penalty r)) \<and>
         rounded2 (Some (overall_avg_lexical_diversity (kpi out))) \<and>
         rounded2 (Some (overall_avg_query_coverage (kpi out))) \<and>
         rounded2 (Some (overall_avg_fk_grade (kpi out))) \<and>
         rounded2 (Some (overall_avg_repetition_penalty (kpi out))) \<and>
         map avg_lexical_diversity (scatter_data out) = map avg_lexical_diversity (query_scatter db) \<and>
         map avg_query_coverage (scatter_data out) = map avg_query_coverage (query_scatter db) \<and>
         map avg_fk_grade (scatter_data out) = map avg_fk_grade (query_scatter db) \<and>
         map avg_repetition_penalty (scatter_data out) =
           map avg_repetition_penalty (query_scatter db) \<and>
         map avg_lexical_diversity (model_comparison out) =
           map avg_lexical_diversity (query_compare db) \<and>
         map avg_query_coverage (model_comparison out) = map avg_query_coverage (query_compare db) \<and>
         map avg_fk_grade (model_comparison out) = map avg_fk_grade (query_compare db) \<and>
         map avg_repetition_penalty (model_comparison out) =
           map avg_repetition_penalty (query_compare db)"
proof -
  note s = get_analytics_views(1) [OF assms]
  note c = get_analytics_views(2) [OF assms]
  have sr: "\<forall>r \<in> set (scatter_data out).
            rounded_last (scatter_data out) r \<and>
            rounded2 (norm_lexical_diversity r) \<and> rounded2 (norm_query_coverage r) \<and>
            rounded2 (norm_fk_grade r) \<and> rounded2 (norm_repetition_penalty r)"
    using normalize_rounded_last [OF s] rounded_last_rounded2 by blast
  have cr: "\<forall>r \<in> set (model_comparison out).
            rounded_last (model_comparison out) r \<and>
            rounded2 (norm_lexical_diversity r) \<and> rounded2 (norm_query_coverage r) \<and>
            rounded2 (norm_fk_grade r) \<and> rounded2 (norm_repetition_penalty r)"
    using normalize_rounded_last [OF c] rounded_last_rounded2 by blast
  have k: "rounded2 (Some (overall_avg_lexical_diversity (kpi out)))"
      "rounded2 (Some (overall_avg_query_coverage (kpi out)))"
      "rounded2 (Some (overall_avg_fk_grade (kpi out)))"
      "rounded2 (Some (overall_avg_repetition_penalty (kpi out)))"
    unfolding get_analytics_views(3) [OF assms]
    by (simp_all add: rounded2_def kpi_field_rounded)
  show ?thesis
    using sr cr k normalize_keeps_avg [OF s] normalize_keeps_avg [OF c]
    by (intro conjI) simp_all
qed

theorem output_rounding_witness:
  "\<exists>out. get_analytics one_group_table = Inr out \<and>
     (\<forall>r \<in> set (scatter_data out). rounded2 (norm_lexical_diversity r) \<and>
        rounded2 (norm_fk_grade r)) \<and>
     map avg_lexical_diversity (scatter_data out) = [100 / 3] \<and>
     rounded2 (Some (overall_avg_fk_grade (kpi out)))"
proof -
  have "\<exists>out. get_analytics one_group_table = Inr out"
    unfolding get_analytics_eq by (rule exI) (rule refl)
  then obtain out where out: "get_analytics one_group_table = Inr out" ..
  have q: "map avg_lexical_diversity (query_scatter one_group_table) = [100 / 3]"
    by code_simp
  show ?thesis
    using out q output_rounding [OF out]
    by (intro exI [of _ out]) simp
qed

theorem avg_unrounded_counterexample:
  "map_sum id (map avg_lexical_diversity \<circ> scatter_data) (get_analytics one_group_table)
     = Inr [100 / 3] \<and>
   py_round2 (100 / 3) = 3333 / 100 \<and> py_round2 (100 / 3) \<noteq> 100 / 3"
  by code_simp

subsection \<open>The empty table\<close>

text \<open>
  Claim C9. On the empty table no exception is raised, both views are the empty list (the
  queries return no group, and the normalisation block of an empty list leaves it as it
  is), and the kpi block is present with its four fields equal to 0.
\<close>

theorem get_analytics_empty:
  "get_analytics [] =
     Inr \<lparr>scatter_data = [], model_comparison = [],
          kpi = \<lparr>overall_avg_lexical_diversity = 0, overall_avg_query_coverage = 0,
                  overall_avg_fk_grade = 0, overall_avg_repetition_penalty = 0\<rparr>\<rparr> \<and>
   query_scatter [] = [] \<and> query_compare [] = [] \<and>
   normalize (query_scatter []) = Inr [] \<and> normalize (query_compare []) = Inr [] \<and>
   query_overall [] = (None, None, None, None)"
  by (simp add: get_analytics_def query_scatter_def query_compare_def query_overall_def
      normalize_def sql_avg_def kpi_field_def)

end
